theory Spec2Isabelle
  imports Main
begin

section \<open>Python strings\<close>

text \<open>
  A Python \<open>str\<close> is a sequence of Unicode code points. A code point is a natural
  number here and a string is a list of them, so that \<open>strip\<close> sees the same
  characters as Python does and the pictographs of the bot's messages are single
  characters. \<open>lit\<close> turns an ASCII literal into such a string.
\<close>

type_synonym codepoint = nat
type_synonym pystr = "codepoint list"

definition lit :: "string \<Rightarrow> pystr" where
  "lit s = map of_char s"

text \<open>
  \<open>str.isspace\<close> for one character: the code points that CPython's
  \<open>_PyUnicode_IsWhitespace\<close> accepts.
\<close>

definition isspace :: "codepoint \<Rightarrow> bool" where
  "isspace c \<longleftrightarrow>
     (9 \<le> c \<and> c \<le> 13) \<or> (28 \<le> c \<and> c \<le> 32) \<or> c = 133 \<or> c = 160 \<or> c = 5760 \<or>
     (8192 \<le> c \<and> c \<le> 8202) \<or> c = 8232 \<or> c = 8233 \<or> c = 8239 \<or> c = 8287 \<or>
     c = 12288"

text \<open>\<open>s.strip()\<close>: drop the whitespace at the left end, then at the right end.\<close>

definition strip :: "pystr \<Rightarrow> pystr" where
  "strip s = rev (dropWhile isspace (rev (dropWhile isspace s)))"

text \<open>
  \<open>s.capitalize()\<close>: the first character in upper case, the others in lower case.
  The case mapping is written out for the ASCII letters, which is all that the
  category tokens of the bot need; a code point from 128 on is left as it is.
\<close>

definition upper_char :: "codepoint \<Rightarrow> codepoint" where
  "upper_char c = (if 97 \<le> c \<and> c \<le> 122 then c - 32 else c)"

definition lower_char :: "codepoint \<Rightarrow> codepoint" where
  "lower_char c = (if 65 \<le> c \<and> c \<le> 90 then c + 32 else c)"

fun capitalize :: "pystr \<Rightarrow> pystr" where
  "capitalize [] = []"
| "capitalize (c # cs) = upper_char c # map lower_char cs"

text \<open>\<open>sep.join(xs)\<close>.\<close>

fun join :: "pystr \<Rightarrow> pystr list \<Rightarrow> pystr" where
  "join sep [] = []"
| "join sep [x] = x"
| "join sep (x # y # ys) = x @ sep @ join sep (y # ys)"

text \<open>\<open>str(n)\<close> for a length: the decimal digits of a natural number.\<close>

fun str_of_nat :: "nat \<Rightarrow> pystr" where
  "str_of_nat n = (if n < 10 then [48 + n] else str_of_nat (n div 10) @ [48 + n mod 10])"

declare str_of_nat.simps [simp del]

text \<open>\<open>needle in haystack\<close> for strings.\<close>

fun startswith :: "pystr \<Rightarrow> pystr \<Rightarrow> bool" where
  "startswith s [] = True"
| "startswith [] (p # ps) = False"
| "startswith (c # cs) (p # ps) = (c = p \<and> startswith cs ps)"

fun contains :: "pystr \<Rightarrow> pystr \<Rightarrow> bool" where
  "contains [] needle = (needle = [])"
| "contains (c # cs) needle = (startswith (c # cs) needle \<or> contains cs needle)"

section \<open>The table \<open>entries\<close> and the state of the process\<close>

text \<open>
  One row of the table \<open>entries\<close> of \<open>entries.db\<close>, with the columns of
  \<open>init_db\<close>.
\<close>

record row =
  row_id :: nat
  row_user_id :: int
  row_username :: pystr
  row_category :: pystr
  row_text :: pystr

text \<open>
  What the handlers send through the Telegram client, in the order of the calls:
  \<open>query.answer\<close>, \<open>query.edit_message_text\<close>, \<open>message.reply_text\<close> (to the chat of
  the update, named here by its sender) and \<open>bot.send_message\<close>. Every call is
  recorded and returns; an error of the network while sending is not part of this
  model.
\<close>

datatype parse_mode = Plain | Markdown

datatype effect =
    AnswerCallback int
  | EditMessageText int pystr parse_mode
  | ReplyText int pystr parse_mode
  | SendMessage int pystr parse_mode

text \<open>
  The exceptions that the handlers of \<open>bot.py\<close> can raise by themselves: an error
  of the SQLite connection, and the \<open>KeyError\<close> of a dictionary lookup.
\<close>

datatype error = SqliteError | KeyError pystr

datatype outcome = Returned | Raised error

text \<open>
  The state that the handlers read and change: the global dictionary \<open>user_state\<close>,
  the rows of the table in insertion order, whether the database file can be written
  and read at this moment, and the messages sent so far.
\<close>

record world =
  user_state :: "int \<rightharpoonup> pystr"
  db_entries :: "row list"
  db_writable :: bool
  db_readable :: bool
  outbox :: "effect list"

definition send :: "effect \<Rightarrow> world \<Rightarrow> world" where
  "send e w = w\<lparr>outbox := outbox w @ [e]\<rparr>"

text \<open>The two kinds of update that reach the handlers modelled here.\<close>

record message_update =
  from_user_id :: int
  from_user_first_name :: pystr
  message_text :: pystr

record callback_update =
  query_from_user_id :: int
  query_data :: pystr

section \<open>Database functions\<close>

text \<open>
  \<open>add_entry\<close>: one \<open>INSERT\<close> and its commit. The key is assigned by
  \<open>AUTOINCREMENT\<close>; no row is ever deleted, so it is the number of rows plus one.
  When the connection or the commit fails the exception leaves the function and the
  table is as before.
\<close>

definition add_entry :: "int \<Rightarrow> pystr \<Rightarrow> pystr \<Rightarrow> pystr \<Rightarrow> world \<Rightarrow> error + world" where
  "add_entry user_id username category text w =
     (if db_writable w
      then Inr (w\<lparr>db_entries := db_entries w @
             [\<lparr>row_id = Suc (length (db_entries w)), row_user_id = user_id,
               row_username = username, row_category = category, row_text = text\<rparr>]\<rparr>)
      else Inl SqliteError)"

text \<open>
  \<open>get_entries\<close>: \<open>SELECT category, username, text FROM entries\<close>. The query has no
  \<open>ORDER BY\<close>; SQLite scans the table by its key, so the oldest row comes first.
\<close>

definition get_entries :: "world \<Rightarrow> error + (pystr \<times> pystr \<times> pystr) list" where
  "get_entries w =
     (if db_readable w
      then Inr (map (\<lambda>r. (row_category r, row_username r, row_text r)) (db_entries w))
      else Inl SqliteError)"

section \<open>Handlers\<close>

text \<open>
  \<open>choose_category\<close>: the callback of a pressed button. The payload of the button is
  stored for the user as it comes.
\<close>

definition choose_category :: "callback_update \<Rightarrow> world \<Rightarrow> outcome \<times> world" where
  "choose_category update w =
     (let w1 = send (AnswerCallback (query_from_user_id update)) w;
          category = query_data update;
          w2 = w1\<lparr>user_state := (user_state w1)(query_from_user_id update \<mapsto> category)\<rparr>
      in (Returned,
          send (EditMessageText (query_from_user_id update)
                  (lit ''You chose *'' @ capitalize category @ lit ''*.'' @ [10] @
                   lit ''Now send me your entry.'') Markdown) w2))"

text \<open>
  The three texts of \<open>handle_message\<close>. The code points 9989 and 128236 are the
  check mark and the mailbox of the source.
\<close>

definition choose_first_text :: pystr where
  "choose_first_text = lit ''Please choose a category first using /start.''"

definition added_text :: "pystr \<Rightarrow> pystr" where
  "added_text category = [9989] @ lit '' Added to *'' @ capitalize category @ lit ''*!''"

definition admin_text :: "pystr \<Rightarrow> pystr \<Rightarrow> pystr \<Rightarrow> pystr" where
  "admin_text category text first_name =
     [128236] @ lit '' *New entry in '' @ capitalize category @ lit ''*'' @ [10, 10] @
     text @ [10, 10] @ lit ''From: '' @ first_name"

text \<open>
  \<open>handle_message\<close>: a text message that is not a command. \<open>ADMIN_ID\<close> is the
  identity read from the environment when the module is loaded.
\<close>

definition handle_message :: "int \<Rightarrow> message_update \<Rightarrow> world \<Rightarrow> outcome \<times> world" where
  "handle_message ADMIN_ID update w =
     (let text = strip (message_text update) in
      case user_state w (from_user_id update) of
        None \<Rightarrow> (Returned, send (ReplyText (from_user_id update) choose_first_text Plain) w)
      | Some category \<Rightarrow>
          (case add_entry (from_user_id update) (from_user_first_name update) category text w of
             Inl e \<Rightarrow> (Raised e, w)
           | Inr w1 \<Rightarrow>
               (Returned,
                send (SendMessage ADMIN_ID
                        (admin_text category text (from_user_first_name update)) Markdown)
                  (send (ReplyText (from_user_id update) (added_text category) Markdown) w1))))"

text \<open>
  The dictionary \<open>cats\<close> of \<open>view_entries\<close>, with its keys in insertion order, and
  \<open>cats[category].append(v)\<close>, which raises \<open>KeyError\<close> for a key that is not there.
\<close>

type_synonym cats = "(pystr \<times> pystr list) list"

definition initial_cats :: cats where
  "initial_cats =
     [(lit ''fruits'', []), (lit ''vegetables'', []), (lit ''drinks'', []), (lit ''others'', [])]"

fun cats_append :: "cats \<Rightarrow> pystr \<Rightarrow> pystr \<Rightarrow> error + cats" where
  "cats_append [] category v = Inl (KeyError category)"
| "cats_append ((k, values) # rest) category v =
     (if k = category then Inr ((k, values @ [v]) # rest)
      else case cats_append rest category v of
             Inl e \<Rightarrow> Inl e
           | Inr rest' \<Rightarrow> Inr ((k, values) # rest'))"

text \<open>The first loop of \<open>view_entries\<close>, over the rows that \<open>get_entries\<close> returned.\<close>

definition entry_line :: "pystr \<Rightarrow> pystr \<Rightarrow> pystr" where
  "entry_line username text = username @ lit '': '' @ text"

fun group_entries :: "cats \<Rightarrow> (pystr \<times> pystr \<times> pystr) list \<Rightarrow> error + cats" where
  "group_entries cats [] = Inr cats"
| "group_entries cats ((category, username, text) # rest) =
     (case cats_append cats category (entry_line username text) of
        Inl e \<Rightarrow> Inl e
      | Inr cats' \<Rightarrow> group_entries cats' rest)"

text \<open>
  The second loop: what one iteration adds to \<open>msg\<close>, and the whole message. The code
  points 8226 and 128202 are the bullet and the bar chart of the source.
  \<open>values[-5:]\<close> is the whole list when it has fewer than five elements.
\<close>

definition last5 :: "'a list \<Rightarrow> 'a list" where
  "last5 values = drop (length values - 5) values"

definition section_text :: "pystr \<Rightarrow> pystr list \<Rightarrow> pystr" where
  "section_text cat values =
     lit ''*'' @ capitalize cat @ lit ''* ('' @ str_of_nat (length values) @ lit '' entries):'' @ [10] @
     (if values \<noteq> []
      then join [10] (map (\<lambda>v. [8226] @ lit '' '' @ v) (last5 values)) @ [10]
      else lit ''_No entries yet_'' @ [10]) @
     [10]"

definition overview_header :: pystr where
  "overview_header = [128202] @ lit '' *Category Entries Overview:*'' @ [10, 10]"

definition render :: "cats \<Rightarrow> pystr" where
  "render cats = overview_header @ concat (map (\<lambda>(cat, values). section_text cat values) cats)"

text \<open>The two short answers of \<open>view_entries\<close>; 128683 is the prohibition sign.\<close>

definition unauthorized_text :: pystr where
  "unauthorized_text = [128683] @ lit '' You are not authorized to use this command.''"

definition no_entries_text :: pystr where
  "no_entries_text = lit ''No entries yet.''"

text \<open>\<open>view_entries\<close>: the command \<open>/view\<close>.\<close>

definition view_entries :: "int \<Rightarrow> message_update \<Rightarrow> world \<Rightarrow> outcome \<times> world" where
  "view_entries ADMIN_ID update w =
     (let user_id = from_user_id update in
      if user_id \<noteq> ADMIN_ID
      then (Returned, send (ReplyText user_id unauthorized_text Plain) w)
      else case get_entries w of
             Inl e \<Rightarrow> (Raised e, w)
           | Inr entries \<Rightarrow>
               if entries = []
               then (Returned, send (ReplyText user_id no_entries_text Plain) w)
               else (case group_entries initial_cats entries of
                       Inl e \<Rightarrow> (Raised e, w)
                     | Inr cats \<Rightarrow> (Returned, send (ReplyText user_id (render cats) Markdown) w)))"

text \<open>
  The categories of the bot: the keys of \<open>cats\<close>, which are also the payloads of the
  four buttons of \<open>start\<close>.
\<close>

definition registry :: "pystr list" where
  "registry = [lit ''fruits'', lit ''vegetables'', lit ''drinks'', lit ''others'']"

text \<open>The messages to the administrator among the effects.\<close>

fun admin_notifications :: "int \<Rightarrow> effect list \<Rightarrow> pystr list" where
  "admin_notifications ADMIN_ID [] = []"
| "admin_notifications ADMIN_ID (SendMessage chat text mode # es) =
     (if chat = ADMIN_ID then text # admin_notifications ADMIN_ID es
      else admin_notifications ADMIN_ID es)"
| "admin_notifications ADMIN_ID (e # es) = admin_notifications ADMIN_ID es"

section \<open>Notions for stating the properties\<close>

text \<open>
  The lines \<open>username: text\<close> of the rows of one category, oldest first: on the
  rows of the table, and on the triples that \<open>get_entries\<close> returns.
\<close>

definition lines_of :: "pystr \<Rightarrow> row list \<Rightarrow> pystr list" where
  "lines_of k rows =
     map (\<lambda>r. entry_line (row_username r) (row_text r)) (filter (\<lambda>r. row_category r = k) rows)"

definition category_lines :: "pystr \<Rightarrow> (pystr \<times> pystr \<times> pystr) list \<Rightarrow> pystr list" where
  "category_lines k es =
     map (\<lambda>(c, u, t). entry_line u t) (filter (\<lambda>(c, u, t). c = k) es)"

text \<open>
  The state when the process has started: \<open>user_state\<close> is the empty
  dictionary, \<open>init_db\<close> has created the table, nothing has been sent.
\<close>

definition initial_world :: world where
  "initial_world =
     \<lparr>user_state = Map.empty, db_entries = [], db_writable = True, db_readable = True,
      outbox = []\<rparr>"

text \<open>
  Rows and an update for the examples: eight rows, seven of them of the category
  \<open>fruits\<close>, and the command \<open>/view\<close> sent by the administrator with identity 1.
\<close>

definition fruit_row :: "nat \<Rightarrow> pystr \<Rightarrow> row" where
  "fruit_row i t =
     \<lparr>row_id = i, row_user_id = 7, row_username = lit ''Sara'', row_category = lit ''fruits'',
      row_text = t\<rparr>"

definition example_rows :: "row list" where
  "example_rows =
     [fruit_row 1 (lit ''fig''), fruit_row 2 (lit ''pear''),
      \<lparr>row_id = 3, row_user_id = 5, row_username = lit ''Abel'', row_category = lit ''drinks'',
       row_text = lit ''tea''\<rparr>,
      fruit_row 4 (lit ''kiwi''), fruit_row 5 (lit ''plum''), fruit_row 6 (lit ''lime''),
      fruit_row 7 (lit ''date''), fruit_row 8 (lit ''pomelo'')]"

text \<open>
  The same rows and one more, whose category \<open>meat\<close> is not one of the four.
\<close>

definition stray_rows :: "row list" where
  "stray_rows =
     example_rows @
     [\<lparr>row_id = 9, row_user_id = 7, row_username = lit ''Sara'', row_category = lit ''meat'',
       row_text = lit ''ham''\<rparr>]"

definition admin_view :: message_update where
  "admin_view =
     \<lparr>from_user_id = 1, from_user_first_name = lit ''Joel'', message_text = lit ''/view''\<rparr>"

section \<open>Lemmas about the effects and the string functions\<close>

lemma admin_notifications_append:
  "admin_notifications A (xs @ ys) = admin_notifications A xs @ admin_notifications A ys"
  by (induction A xs rule: admin_notifications.induct) auto





lemma strip_split:
  "dropWhile isspace s = strip s @ rev (takeWhile isspace (rev (dropWhile isspace s)))"
proof -
  let ?d = "dropWhile isspace s"
  have "rev (takeWhile isspace (rev ?d) @ dropWhile isspace (rev ?d)) = rev (rev ?d)"
    by (simp only: takeWhile_dropWhile_id)
  then have "rev (dropWhile isspace (rev ?d)) @ rev (takeWhile isspace (rev ?d)) = ?d"
    by (simp only: rev_append rev_rev_ident)
  then show ?thesis by (simp only: strip_def)
qed

lemma strip_decomp:
  "\<exists>pre post. s = pre @ strip s @ post \<and> list_all isspace pre \<and> list_all isspace post"
proof -
  let ?d = "dropWhile isspace s"
  let ?post = "rev (takeWhile isspace (rev ?d))"
  have a: "takeWhile isspace s @ ?d = s"
    by (rule takeWhile_dropWhile_id)
  have b: "strip s @ ?post = ?d"
    by (rule strip_split [symmetric])
  have "takeWhile isspace s @ strip s @ ?post = s"
    unfolding b by (rule a)
  then have c: "s = takeWhile isspace s @ strip s @ ?post"
    by (rule sym)
  have l: "list_all isspace (takeWhile isspace s)"
    by (auto simp: list_all_iff dest: set_takeWhileD)
  have r: "list_all isspace ?post"
    by (auto simp: list_all_iff dest: set_takeWhileD)
  show ?thesis
    by (rule exI [of _ "takeWhile isspace s"], rule exI [of _ ?post]) (intro conjI c l r)
qed

lemma strip_ends:
  assumes "strip s \<noteq> []"
  shows "\<not> isspace (hd (strip s))" and "\<not> isspace (last (strip s))"
proof -
  let ?d = "dropWhile isspace s"
  have d: "?d \<noteq> []"
  proof
    assume "?d = []"
    then have "strip s = []" by (simp only: strip_def rev.simps dropWhile.simps)
    with assms show False by simp
  qed
  have ne: "dropWhile isspace (rev ?d) \<noteq> []"
    using assms by (simp add: strip_def)
  have "last (strip s) = hd (dropWhile isspace (rev ?d))"
    using ne by (simp add: strip_def last_rev)
  then show "\<not> isspace (last (strip s))"
    using ne by (simp add: hd_dropWhile)
  have "hd ?d = hd (strip s @ rev (takeWhile isspace (rev ?d)))"
    by (simp only: strip_split [symmetric])
  then have "hd ?d = hd (strip s)"
    using assms by simp
  moreover have "\<not> isspace (hd ?d)"
    using d by (rule hd_dropWhile)
  ultimately show "\<not> isspace (hd (strip s))" by simp
qed


section \<open>Lemmas about the grouping loop\<close>

lemma cats_append_keys:
  "cats_append cats k v = Inr cats' \<Longrightarrow> map fst cats' = map fst cats"
  by (induction cats k v arbitrary: cats' rule: cats_append.induct)
     (auto split: if_splits sum.splits)

lemma cats_append_ok:
  "distinct (map fst cats) \<Longrightarrow> k \<in> fst ` set cats \<Longrightarrow>
   cats_append cats k v = Inr (map (\<lambda>(k', vs). (k', if k' = k then vs @ [v] else vs)) cats)"
proof (induction cats)
  case Nil
  then show ?case by simp
next
  case (Cons a cats)
  obtain k' vs where a: "a = (k', vs)" by (cases a)
  show ?case
  proof (cases "k' = k")
    case True
    with Cons.prems a have "k \<notin> fst ` set cats" by auto
    then have "map (\<lambda>(k', vs). (k', if k' = k then vs @ [v] else vs)) cats = cats"
      by (induction cats) auto
    with True a show ?thesis by simp
  next
    case False
    with Cons a show ?thesis by auto
  qed
qed

lemma cats_append_fail:
  "k \<notin> fst ` set cats \<Longrightarrow> cats_append cats k v = Inl (KeyError k)"
  by (induction cats) auto

lemma cats_append_Inl:
  "cats_append cats k v = Inl e \<Longrightarrow> k \<notin> fst ` set cats \<and> e = KeyError k"
  by (induction cats k v rule: cats_append.induct) (auto split: if_splits sum.splits)

lemma group_entries_ok:
  "distinct (map fst cats) \<Longrightarrow> \<forall>e\<in>set es. fst e \<in> fst ` set cats \<Longrightarrow>
   group_entries cats es = Inr (map (\<lambda>(k, vs). (k, vs @ category_lines k es)) cats)"
proof (induction es arbitrary: cats)
  case Nil
  then show ?case by (simp add: category_lines_def)
next
  case (Cons e es)
  obtain c u t where e: "e = (c, u, t)" by (cases e)
  let ?cats = "map (\<lambda>(k', vs). (k', if k' = c then vs @ [entry_line u t] else vs)) cats"
  from Cons.prems e have app: "cats_append cats c (entry_line u t) = Inr ?cats"
    by (simp add: cats_append_ok)
  have keys: "map fst ?cats = map fst cats"
    using app by (rule cats_append_keys)
  then have "distinct (map fst ?cats)" and "fst ` set ?cats = fst ` set cats"
    using Cons.prems(1) by (simp_all only: set_map [symmetric])
  with Cons.prems(2) have "\<forall>e\<in>set es. fst e \<in> fst ` set ?cats"
    by simp
  with \<open>distinct (map fst ?cats)\<close> have "group_entries ?cats es =
      Inr (map (\<lambda>(k, vs). (k, vs @ category_lines k es)) ?cats)"
    by (rule Cons.IH)
  moreover have "map (\<lambda>(k, vs). (k, vs @ category_lines k es)) ?cats =
      map (\<lambda>(k, vs). (k, vs @ category_lines k (e # es))) cats"
    by (simp add: category_lines_def e case_prod_beta)
  ultimately show ?case
    using app e by simp
qed

lemma group_entries_Inl:
  "group_entries cats es = Inl err \<Longrightarrow>
   \<exists>e\<in>set es. fst e \<notin> fst ` set cats \<and> err = KeyError (fst e)"
proof (induction cats es rule: group_entries.induct)
  case (1 cats)
  then show ?case by simp
next
  case (2 cats category username body rest)
  show ?case
  proof (cases "cats_append cats category (entry_line username body)")
    case (Inl e)
    with 2 cats_append_Inl [OF Inl] show ?thesis by simp
  next
    case (Inr cats')
    with 2 have "\<exists>e\<in>set rest. fst e \<notin> fst ` set cats' \<and> err = KeyError (fst e)"
      by simp
    moreover have "fst ` set cats' = fst ` set cats"
      using cats_append_keys [OF Inr] by (simp only: set_map [symmetric])
    ultimately show ?thesis by auto
  qed
qed

lemma category_lines_rows:
  "category_lines k (map (\<lambda>r. (row_category r, row_username r, row_text r)) rows) = lines_of k rows"
  by (induction rows) (auto simp: category_lines_def lines_of_def)

lemma initial_cats_registry: "initial_cats = map (\<lambda>k. (k, [])) registry"
  by (simp add: initial_cats_def registry_def)

lemma distinct_registry: "distinct registry"
  by (simp add: registry_def lit_def)

section \<open>Lemmas about the report\<close>

lemma keys_initial_cats: "fst ` set initial_cats = set registry"
  by (simp add: initial_cats_registry image_image)

lemma distinct_initial_cats: "distinct (map fst initial_cats)"
  by (simp add: initial_cats_registry comp_def distinct_registry)

lemma group_entries_initial:
  assumes "\<forall>e\<in>set es. fst e \<in> set registry"
  shows "group_entries initial_cats es = Inr (map (\<lambda>k. (k, category_lines k es)) registry)"
proof -
  from assms have "\<forall>e\<in>set es. fst e \<in> fst ` set initial_cats"
    by (simp only: keys_initial_cats)
  with distinct_initial_cats have "group_entries initial_cats es =
      Inr (map (\<lambda>(k, vs). (k, vs @ category_lines k es)) initial_cats)"
    by (rule group_entries_ok)
  then show ?thesis
    by (simp add: initial_cats_registry comp_def)
qed

lemma group_entries_append:
  "group_entries cats (xs @ ys) =
     (case group_entries cats xs of Inl e \<Rightarrow> Inl e | Inr cats' \<Rightarrow> group_entries cats' ys)"
  by (induction cats xs rule: group_entries.induct) (auto split: sum.splits)

lemma render_sections:
  "render (map (\<lambda>k. (k, f k)) ks) = overview_header @ concat (map (\<lambda>k. section_text k (f k)) ks)"
  by (simp add: render_def comp_def)

lemma view_entries_report:
  assumes "from_user_id update = ADMIN_ID" and "db_readable w" and "db_entries w \<noteq> []"
    and "\<forall>r\<in>set (db_entries w). row_category r \<in> set registry"
  shows "view_entries ADMIN_ID update w =
     (Returned,
      send (ReplyText ADMIN_ID
              (overview_header @
               concat (map (\<lambda>k. section_text k (lines_of k (db_entries w))) registry))
              Markdown) w)"
proof -
  let ?es = "map (\<lambda>r. (row_category r, row_username r, row_text r)) (db_entries w)"
  have g: "get_entries w = Inr ?es"
    using assms(2) by (simp add: get_entries_def)
  have ne: "?es \<noteq> []"
    using assms(3) by simp
  have "\<forall>e\<in>set ?es. fst e \<in> set registry"
    using assms(4) by simp
  then have "group_entries initial_cats ?es =
      Inr (map (\<lambda>k. (k, category_lines k ?es)) registry)"
    by (rule group_entries_initial)
  then have gr: "group_entries initial_cats ?es =
      Inr (map (\<lambda>k. (k, lines_of k (db_entries w))) registry)"
    by (simp only: category_lines_rows)
  show ?thesis
    unfolding view_entries_def Let_def g
    using assms(1) ne by (simp add: gr render_sections)
qed

lemma section_text_seven:
  assumes "length vals = 7"
  shows "section_text c vals =
           lit ''*'' @ capitalize c @ lit ''* (7 entries):'' @ [10] @
           join [10] (map (\<lambda>v. [8226] @ lit '' '' @ v) (drop 2 vals)) @ [10, 10]"
    and "drop 2 vals = [vals ! 2, vals ! 3, vals ! 4, vals ! 5, vals ! 6]"
proof -
  from assms obtain a b c' d e f g where v: "vals = [a, b, c', d, e, f, g]"
    by (auto simp: eval_nat_numeral length_Suc_conv)
  have n: "str_of_nat 7 = lit ''7''"
    by (simp add: str_of_nat.simps lit_def)
  have ne: "vals \<noteq> []" using v by simp
  have l5: "last5 vals = drop 2 vals"
    using assms by (simp add: last5_def)
  show "section_text c vals =
           lit ''*'' @ capitalize c @ lit ''* (7 entries):'' @ [10] @
           join [10] (map (\<lambda>v. [8226] @ lit '' '' @ v) (drop 2 vals)) @ [10, 10]"
    unfolding section_text_def l5 assms n using ne by (simp add: lit_def)
  show "drop 2 vals = [vals ! 2, vals ! 3, vals ! 4, vals ! 5, vals ! 6]"
    unfolding v by (simp add: eval_nat_numeral)
qed

lemma section_text_none:
  "section_text k [] =
     lit ''*'' @ capitalize k @ lit ''* (0 entries):'' @ [10] @ lit ''_No entries yet_'' @ [10, 10]"
  by (simp add: section_text_def str_of_nat.simps lit_def)

section \<open>Lemmas about the handlers\<close>

lemma choose_category_world:
  "snd (choose_category \<lparr>query_from_user_id = u, query_data = c\<rparr> w) =
     w\<lparr>user_state := (user_state w)(u \<mapsto> c),
       outbox := outbox w @
         [AnswerCallback u,
          EditMessageText u
            (lit ''You chose *'' @ capitalize c @ lit ''*.'' @ [10] @
             lit ''Now send me your entry.'') Markdown]\<rparr>"
  by (simp add: choose_category_def send_def Let_def)

lemma handle_message_selected:
  "user_state w (from_user_id update) = Some category \<Longrightarrow> db_writable w \<Longrightarrow>
   handle_message ADMIN_ID update w =
     (Returned,
      w\<lparr>db_entries := db_entries w @
           [\<lparr>row_id = Suc (length (db_entries w)), row_user_id = from_user_id update,
             row_username = from_user_first_name update, row_category = category,
             row_text = strip (message_text update)\<rparr>],
        outbox := outbox w @
           [ReplyText (from_user_id update) (added_text category) Markdown,
            SendMessage ADMIN_ID
              (admin_text category (strip (message_text update)) (from_user_first_name update))
              Markdown]\<rparr>)"
  by (simp add: handle_message_def add_entry_def send_def Let_def)




section \<open>Selecting a category\<close>

text \<open>
  C2 (as the code has it). For every user \<open>u\<close> and every token \<open>t\<close>,
  \<open>choose_category\<close> checks nothing: it returns normally and records \<open>t\<close> as the
  selection of \<open>u\<close>, whether \<open>t\<close> is one of the four categories or not. The
  selections of the other users and the table are as before.
\<close>

theorem choose_category_unvalidated:
  "fst (choose_category \<lparr>query_from_user_id = u, query_data = t\<rparr> w) = Returned \<and>
   user_state (snd (choose_category \<lparr>query_from_user_id = u, query_data = t\<rparr> w)) =
     (user_state w)(u \<mapsto> t) \<and>
   db_entries (snd (choose_category \<lparr>query_from_user_id = u, query_data = t\<rparr> w)) =
     db_entries w"
  by (simp add: choose_category_def send_def Let_def)

text \<open>
  The token \<open>meat\<close> is not a category, and still \<open>choose_category\<close> returns and
  user 7, who had no selection, has the selection \<open>meat\<close> afterwards.
\<close>

theorem choose_category_invalid_token:
  "lit ''meat'' \<notin> set registry \<and>
   user_state initial_world 7 = None \<and>
   fst (choose_category \<lparr>query_from_user_id = 7, query_data = lit ''meat''\<rparr> initial_world) =
     Returned \<and>
   user_state
     (snd (choose_category \<lparr>query_from_user_id = 7, query_data = lit ''meat''\<rparr> initial_world)) 7 =
     Some (lit ''meat'')"
  by (simp add: choose_category_def send_def Let_def initial_world_def registry_def lit_def)

section \<open>Text without a selection\<close>

text \<open>
  C3. When the sender of a text has no selection, \<open>handle_message\<close> only answers
  with the instruction to choose a category first: the table and the selections are
  as before, and no message goes to the administrator.
\<close>

theorem handle_message_no_category:
  "user_state w (from_user_id update) = None \<Longrightarrow>
   handle_message ADMIN_ID update w =
     (Returned, send (ReplyText (from_user_id update) choose_first_text Plain) w) \<and>
   db_entries (snd (handle_message ADMIN_ID update w)) = db_entries w \<and>
   user_state (snd (handle_message ADMIN_ID update w)) = user_state w \<and>
   admin_notifications ADMIN_ID (outbox (snd (handle_message ADMIN_ID update w))) =
     admin_notifications ADMIN_ID (outbox w)"
  by (simp add: handle_message_def send_def admin_notifications_append)

theorem handle_message_no_category_witness:
  "user_state initial_world
     (from_user_id \<lparr>from_user_id = 7, from_user_first_name = lit ''Sara'',
                    message_text = lit ''apple''\<rparr>) = None \<and>
   handle_message 1
     \<lparr>from_user_id = 7, from_user_first_name = lit ''Sara'', message_text = lit ''apple''\<rparr>
     initial_world =
     (Returned, initial_world\<lparr>outbox := [ReplyText 7 choose_first_text Plain]\<rparr>)"
proof -
  have h: "user_state initial_world
     (from_user_id \<lparr>from_user_id = 7, from_user_first_name = lit ''Sara'',
                    message_text = lit ''apple''\<rparr>) = None"
    by (simp add: initial_world_def)
  from handle_message_no_category [OF h, of 1] h show ?thesis
    by (simp add: send_def initial_world_def)
qed

section \<open>A text after a selection\<close>



text \<open>
  C5. For every user \<open>u\<close> and token \<open>c\<close>, when the database can be written: after
  one \<open>choose_category\<close>, two texts in a row give two rows, both with category
  \<open>c\<close>; the selection of \<open>u\<close> is still \<open>c\<close> after the first and after the second
  text.
\<close>

theorem sticky_selection:
  "db_writable w \<Longrightarrow>
   (let w1 = snd (choose_category \<lparr>query_from_user_id = u, query_data = c\<rparr> w);
        r2 = handle_message ADMIN_ID
               \<lparr>from_user_id = u, from_user_first_name = name, message_text = t1\<rparr> w1;
        r3 = handle_message ADMIN_ID
               \<lparr>from_user_id = u, from_user_first_name = name, message_text = t2\<rparr> (snd r2)
    in fst r2 = Returned \<and> user_state (snd r2) u = Some c \<and>
       fst r3 = Returned \<and> user_state (snd r3) u = Some c \<and>
       db_entries (snd r3) = db_entries w @
         [\<lparr>row_id = Suc (length (db_entries w)), row_user_id = u, row_username = name,
           row_category = c, row_text = strip t1\<rparr>,
          \<lparr>row_id = Suc (Suc (length (db_entries w))), row_user_id = u, row_username = name,
           row_category = c, row_text = strip t2\<rparr>])"
proof -
  assume "db_writable w"
  let ?w1 = "snd (choose_category \<lparr>query_from_user_id = u, query_data = c\<rparr> w)"
  let ?u1 = "\<lparr>from_user_id = u, from_user_first_name = name, message_text = t1\<rparr>"
  let ?u2 = "\<lparr>from_user_id = u, from_user_first_name = name, message_text = t2\<rparr>"
  have sel1: "user_state ?w1 (from_user_id ?u1) = Some c"
    by (simp add: choose_category_world)
  have wr1: "db_writable ?w1"
    using \<open>db_writable w\<close> by (simp add: choose_category_world)
  have db1: "db_entries ?w1 = db_entries w"
    by (simp add: choose_category_world)
  note hm1 = handle_message_selected [OF sel1 wr1, of ADMIN_ID]
  let ?w2 = "snd (handle_message ADMIN_ID ?u1 ?w1)"
  have sel2: "user_state ?w2 (from_user_id ?u2) = Some c"
    unfolding hm1 using sel1 by simp
  have wr2: "db_writable ?w2"
    unfolding hm1 using wr1 by simp
  have db2: "db_entries ?w2 = db_entries w @
         [\<lparr>row_id = Suc (length (db_entries w)), row_user_id = u, row_username = name,
           row_category = c, row_text = strip t1\<rparr>]"
    unfolding hm1 by (simp add: db1)
  note hm2 = handle_message_selected [OF sel2 wr2, of ADMIN_ID]
  have r2: "fst (handle_message ADMIN_ID ?u1 ?w1) = Returned"
    unfolding hm1 by simp
  have s2: "user_state ?w2 u = Some c"
    using sel2 by simp
  have r3: "fst (handle_message ADMIN_ID ?u2 ?w2) = Returned"
    unfolding hm2 by simp
  have s3: "user_state (snd (handle_message ADMIN_ID ?u2 ?w2)) u = Some c"
    unfolding hm2 using s2 by simp
  have db3: "db_entries (snd (handle_message ADMIN_ID ?u2 ?w2)) = db_entries w @
         [\<lparr>row_id = Suc (length (db_entries w)), row_user_id = u, row_username = name,
           row_category = c, row_text = strip t1\<rparr>,
          \<lparr>row_id = Suc (Suc (length (db_entries w))), row_user_id = u, row_username = name,
           row_category = c, row_text = strip t2\<rparr>]"
    unfolding hm2 by (simp add: db2)
  show ?thesis
    unfolding Let_def by (intro conjI r2 s2 r3 s3 db3)
qed

theorem sticky_selection_witness:
  "db_writable initial_world \<and>
   db_entries (snd (handle_message 1
      \<lparr>from_user_id = 7, from_user_first_name = lit ''Sara'', message_text = lit ''kiwi''\<rparr>
      (snd (handle_message 1
         \<lparr>from_user_id = 7, from_user_first_name = lit ''Sara'', message_text = lit ''apple''\<rparr>
         (snd (choose_category \<lparr>query_from_user_id = 7, query_data = lit ''fruits''\<rparr>
                 initial_world)))))) =
     [\<lparr>row_id = 1, row_user_id = 7, row_username = lit ''Sara'',
       row_category = lit ''fruits'', row_text = lit ''apple''\<rparr>,
      \<lparr>row_id = 2, row_user_id = 7, row_username = lit ''Sara'',
       row_category = lit ''fruits'', row_text = lit ''kiwi''\<rparr>] \<and>
   user_state (snd (handle_message 1
      \<lparr>from_user_id = 7, from_user_first_name = lit ''Sara'', message_text = lit ''kiwi''\<rparr>
      (snd (handle_message 1
         \<lparr>from_user_id = 7, from_user_first_name = lit ''Sara'', message_text = lit ''apple''\<rparr>
         (snd (choose_category \<lparr>query_from_user_id = 7, query_data = lit ''fruits''\<rparr>
                 initial_world)))))) 7 = Some (lit ''fruits'')"
proof -
  have h: "db_writable initial_world"
    by (simp add: initial_world_def)
  have a: "strip (lit ''apple'') = lit ''apple''"
    by (simp add: strip_def lit_def isspace_def)
  have k: "strip (lit ''kiwi'') = lit ''kiwi''"
    by (simp add: strip_def lit_def isspace_def)
  from sticky_selection [OF h, of 7 "lit ''fruits''" 1 "lit ''Sara''" "lit ''apple''" "lit ''kiwi''"]
    h a k show ?thesis
    by (simp add: Let_def initial_world_def)
qed

text \<open>
  C9. For every user with a selection and every text, when the database can be
  written, \<open>handle_message\<close> stores the text stripped: the received text is the
  stored one between two runs of whitespace, and the stored text, when it is not
  empty, neither starts nor ends with whitespace. There is no condition on the text,
  so a text that is empty after stripping is stored as well.
\<close>

theorem handle_message_stores_stripped:
  "user_state w (from_user_id update) = Some category \<Longrightarrow> db_writable w \<Longrightarrow>
   fst (handle_message ADMIN_ID update w) = Returned \<and>
   db_entries (snd (handle_message ADMIN_ID update w)) = db_entries w @
     [\<lparr>row_id = Suc (length (db_entries w)), row_user_id = from_user_id update,
       row_username = from_user_first_name update, row_category = category,
       row_text = strip (message_text update)\<rparr>] \<and>
   (\<exists>pre post. message_text update = pre @ strip (message_text update) @ post \<and>
      list_all isspace pre \<and> list_all isspace post) \<and>
   (strip (message_text update) \<noteq> [] \<longrightarrow>
      \<not> isspace (hd (strip (message_text update))) \<and>
      \<not> isspace (last (strip (message_text update))))"
proof -
  assume sel: "user_state w (from_user_id update) = Some category" and wr: "db_writable w"
  note hm = handle_message_selected [OF sel wr, of ADMIN_ID]
  have "fst (handle_message ADMIN_ID update w) = Returned"
    unfolding hm by simp
  moreover have "db_entries (snd (handle_message ADMIN_ID update w)) = db_entries w @
     [\<lparr>row_id = Suc (length (db_entries w)), row_user_id = from_user_id update,
       row_username = from_user_first_name update, row_category = category,
       row_text = strip (message_text update)\<rparr>]"
    unfolding hm by simp
  moreover note strip_decomp [of "message_text update"]
  moreover have "strip (message_text update) \<noteq> [] \<longrightarrow>
      \<not> isspace (hd (strip (message_text update))) \<and>
      \<not> isspace (last (strip (message_text update)))"
    using strip_ends [of "message_text update"] by blast
  ultimately show ?thesis
    by (intro conjI)
qed

theorem handle_message_stores_stripped_witness:
  "user_state (initial_world\<lparr>user_state := [7 \<mapsto> lit ''fruits'']\<rparr>) 7 = Some (lit ''fruits'') \<and>
   db_writable (initial_world\<lparr>user_state := [7 \<mapsto> lit ''fruits'']\<rparr>) \<and>
   strip (lit ''  red apple '') = lit ''red apple'' \<and>
   strip (lit ''  red apple '') \<noteq> [] \<and>
   db_entries (snd (handle_message 1
      \<lparr>from_user_id = 7, from_user_first_name = lit ''Sara'', message_text = lit ''  red apple ''\<rparr>
      (initial_world\<lparr>user_state := [7 \<mapsto> lit ''fruits'']\<rparr>))) =
     [\<lparr>row_id = 1, row_user_id = 7, row_username = lit ''Sara'',
       row_category = lit ''fruits'', row_text = lit ''red apple''\<rparr>] \<and>
   strip (lit ''   '') = [] \<and>
   fst (handle_message 1
      \<lparr>from_user_id = 7, from_user_first_name = lit ''Sara'', message_text = lit ''   ''\<rparr>
      (initial_world\<lparr>user_state := [7 \<mapsto> lit ''fruits'']\<rparr>)) = Returned \<and>
   db_entries (snd (handle_message 1
      \<lparr>from_user_id = 7, from_user_first_name = lit ''Sara'', message_text = lit ''   ''\<rparr>
      (initial_world\<lparr>user_state := [7 \<mapsto> lit ''fruits'']\<rparr>))) =
     [\<lparr>row_id = 1, row_user_id = 7, row_username = lit ''Sara'',
       row_category = lit ''fruits'', row_text = []\<rparr>]"
proof -
  let ?w = "initial_world\<lparr>user_state := [7 \<mapsto> lit ''fruits'']\<rparr>"
  let ?a = "\<lparr>from_user_id = 7, from_user_first_name = lit ''Sara'',
             message_text = lit ''  red apple ''\<rparr>"
  let ?b = "\<lparr>from_user_id = 7, from_user_first_name = lit ''Sara'',
             message_text = lit ''   ''\<rparr>"
  have h1a: "user_state ?w (from_user_id ?a) = Some (lit ''fruits'')"
    by simp
  have h1b: "user_state ?w (from_user_id ?b) = Some (lit ''fruits'')"
    by simp
  have h2: "db_writable ?w"
    by (simp add: initial_world_def)
  have sa: "strip (lit ''  red apple '') = lit ''red apple''"
    by (simp add: strip_def lit_def isspace_def)
  have sb: "strip (lit ''   '') = []"
    by (simp add: strip_def lit_def isspace_def)
  have ne: "lit ''red apple'' \<noteq> []"
    by (simp add: lit_def)
  from handle_message_stores_stripped [OF h1a h2, of 1]
    handle_message_stores_stripped [OF h1b h2, of 1] h2 sa sb ne
  show ?thesis
    by (simp add: initial_world_def)
qed

section \<open>A failing write\<close>

text \<open>
  C4 (as the code has it). When the sender has a selection and the write to the
  database fails, \<open>handle_message\<close> ends with the exception of the database: the
  table, the selections and the messages sent are as before, so there is no new row,
  no message to the administrator, and no message to the sender either.
\<close>

theorem handle_message_storage_failure:
  "user_state w (from_user_id update) = Some category \<Longrightarrow> \<not> db_writable w \<Longrightarrow>
   handle_message ADMIN_ID update w = (Raised SqliteError, w)"
  by (simp add: handle_message_def add_entry_def)

theorem handle_message_storage_failure_witness:
  "user_state (initial_world\<lparr>user_state := [7 \<mapsto> lit ''fruits''], db_writable := False\<rparr>)
     (from_user_id \<lparr>from_user_id = 7, from_user_first_name = lit ''Sara'',
                    message_text = lit ''apple''\<rparr>) = Some (lit ''fruits'') \<and>
   \<not> db_writable (initial_world\<lparr>user_state := [7 \<mapsto> lit ''fruits''], db_writable := False\<rparr>) \<and>
   handle_message 1
     \<lparr>from_user_id = 7, from_user_first_name = lit ''Sara'', message_text = lit ''apple''\<rparr>
     (initial_world\<lparr>user_state := [7 \<mapsto> lit ''fruits''], db_writable := False\<rparr>) =
     (Raised SqliteError,
      initial_world\<lparr>user_state := [7 \<mapsto> lit ''fruits''], db_writable := False\<rparr>)"
proof -
  let ?w = "initial_world\<lparr>user_state := [7 \<mapsto> lit ''fruits''], db_writable := False\<rparr>"
  let ?u = "\<lparr>from_user_id = 7, from_user_first_name = lit ''Sara'',
             message_text = lit ''apple''\<rparr>"
  have h1: "user_state ?w (from_user_id ?u) = Some (lit ''fruits'')"
    by simp
  have h2: "\<not> db_writable ?w"
    by simp
  from handle_message_storage_failure [OF h1 h2, of 1] h1 h2 show ?thesis
    by simp
qed

text \<open>
  User 7 has chosen \<open>fruits\<close> and the database cannot be written: the handler raises,
  and nothing at all has been sent.
\<close>

theorem handle_message_storage_failure_silent:
  "fst (handle_message 1
          \<lparr>from_user_id = 7, from_user_first_name = lit ''Sara'', message_text = lit ''apple''\<rparr>
          (initial_world\<lparr>user_state := [7 \<mapsto> lit ''fruits''], db_writable := False\<rparr>)) =
     Raised SqliteError \<and>
   outbox (snd (handle_message 1
          \<lparr>from_user_id = 7, from_user_first_name = lit ''Sara'', message_text = lit ''apple''\<rparr>
          (initial_world\<lparr>user_state := [7 \<mapsto> lit ''fruits''], db_writable := False\<rparr>))) = []"
  by (simp add: handle_message_def add_entry_def initial_world_def)

section \<open>The report and who may ask for it\<close>

text \<open>
  C8. When the sender of \<open>/view\<close> is not the administrator, \<open>view_entries\<close> only
  answers with the fixed refusal: the answer is the same text whatever the table
  holds, and nothing else is sent or changed.
\<close>

theorem view_entries_unauthorized:
  "from_user_id update \<noteq> ADMIN_ID \<Longrightarrow>
   view_entries ADMIN_ID update w =
     (Returned, send (ReplyText (from_user_id update) unauthorized_text Plain) w)"
  by (simp add: view_entries_def)

theorem view_entries_unauthorized_witness:
  "from_user_id \<lparr>from_user_id = 7, from_user_first_name = lit ''Sara'',
                 message_text = lit ''/view''\<rparr> \<noteq> 1 \<and>
   view_entries 1
     \<lparr>from_user_id = 7, from_user_first_name = lit ''Sara'', message_text = lit ''/view''\<rparr>
     (initial_world\<lparr>db_entries :=
        [\<lparr>row_id = 1, row_user_id = 5, row_username = lit ''Abel'',
          row_category = lit ''drinks'', row_text = lit ''tea''\<rparr>]\<rparr>) =
     (Returned,
      initial_world\<lparr>db_entries :=
        [\<lparr>row_id = 1, row_user_id = 5, row_username = lit ''Abel'',
          row_category = lit ''drinks'', row_text = lit ''tea''\<rparr>],
        outbox := [ReplyText 7 unauthorized_text Plain]\<rparr>)"
proof -
  let ?u = "\<lparr>from_user_id = 7, from_user_first_name = lit ''Sara'',
             message_text = lit ''/view''\<rparr>"
  have h: "from_user_id ?u \<noteq> 1"
    by simp
  from view_entries_unauthorized [OF h] h show ?thesis
    by (simp add: send_def initial_world_def)
qed

text \<open>
  C6 (as the code has it). The administrator asks for the report, the table can be
  read, every row has one of the four categories, and the category \<open>c\<close> has seven
  rows. Then the report
  is the header followed by one part for each of the four categories in their order;
  the part of \<open>c\<close> has the count 7 in its first line and then the last five of the
  seven lines \<open>username: text\<close>, oldest first, each after a bullet.
\<close>

theorem view_entries_seven:
  "from_user_id update = ADMIN_ID \<Longrightarrow> db_readable w \<Longrightarrow>
   \<forall>r\<in>set (db_entries w). row_category r \<in> set registry \<Longrightarrow>
   c \<in> set registry \<Longrightarrow> length (lines_of c (db_entries w)) = 7 \<Longrightarrow>
   view_entries ADMIN_ID update w =
     (Returned,
      send (ReplyText ADMIN_ID
              (overview_header @
               concat (map (\<lambda>k. section_text k (lines_of k (db_entries w))) registry))
              Markdown) w) \<and>
   section_text c (lines_of c (db_entries w)) =
     lit ''*'' @ capitalize c @ lit ''* (7 entries):'' @ [10] @
     join [10] (map (\<lambda>v. [8226] @ lit '' '' @ v) (drop 2 (lines_of c (db_entries w)))) @
     [10, 10] \<and>
   drop 2 (lines_of c (db_entries w)) =
     [lines_of c (db_entries w) ! 2, lines_of c (db_entries w) ! 3,
      lines_of c (db_entries w) ! 4, lines_of c (db_entries w) ! 5,
      lines_of c (db_entries w) ! 6]"
proof -
  assume adm: "from_user_id update = ADMIN_ID" and rd: "db_readable w"
    and reg: "\<forall>r\<in>set (db_entries w). row_category r \<in> set registry"
    and len: "length (lines_of c (db_entries w)) = 7"
  from len have "db_entries w \<noteq> []"
    by (auto simp: lines_of_def)
  with adm rd have "view_entries ADMIN_ID update w =
     (Returned,
      send (ReplyText ADMIN_ID
              (overview_header @
               concat (map (\<lambda>k. section_text k (lines_of k (db_entries w))) registry))
              Markdown) w)"
    using reg by (rule view_entries_report)
  with section_text_seven [OF len] show ?thesis
    by (intro conjI)
qed

theorem view_entries_seven_witness:
  "from_user_id admin_view = 1 \<and>
   db_readable (initial_world\<lparr>db_entries := example_rows\<rparr>) \<and>
   list_all (\<lambda>r. row_category r \<in> set registry)
     (db_entries (initial_world\<lparr>db_entries := example_rows\<rparr>)) \<and>
   lit ''fruits'' \<in> set registry \<and>
   length (lines_of (lit ''fruits'') (db_entries (initial_world\<lparr>db_entries := example_rows\<rparr>))) = 7 \<and>
   fst (view_entries 1 admin_view (initial_world\<lparr>db_entries := example_rows\<rparr>)) = Returned \<and>
   section_text (lit ''fruits'') (lines_of (lit ''fruits'') example_rows) =
     lit ''*Fruits* (7 entries):'' @ [10] @
     [8226] @ lit '' Sara: kiwi'' @ [10] @
     [8226] @ lit '' Sara: plum'' @ [10] @
     [8226] @ lit '' Sara: lime'' @ [10] @
     [8226] @ lit '' Sara: date'' @ [10] @
     [8226] @ lit '' Sara: pomelo'' @ [10, 10]"
proof -
  let ?w = "initial_world\<lparr>db_entries := example_rows\<rparr>"
  have h1: "from_user_id admin_view = 1"
    by (simp add: admin_view_def)
  have h2: "db_readable ?w"
    by (simp add: initial_world_def)
  have h3: "\<forall>r\<in>set (db_entries ?w). row_category r \<in> set registry"
    by (simp add: example_rows_def fruit_row_def registry_def)
  have h4: "lit ''fruits'' \<in> set registry"
    by (simp add: registry_def)
  have l: "lines_of (lit ''fruits'') example_rows =
      [lit ''Sara: fig'', lit ''Sara: pear'', lit ''Sara: kiwi'', lit ''Sara: plum'',
       lit ''Sara: lime'', lit ''Sara: date'', lit ''Sara: pomelo'']"
    by (simp add: lines_of_def example_rows_def fruit_row_def entry_line_def lit_def)
  have h5: "length (lines_of (lit ''fruits'') (db_entries ?w)) = 7"
    by (simp add: l)
  have cap: "capitalize (lit ''fruits'') = lit ''Fruits''"
    by (simp add: lit_def upper_char_def lower_char_def)
  have h3': "list_all (\<lambda>r. row_category r \<in> set registry) (db_entries ?w)"
    using h3 by (simp only: list_all_iff)
  from view_entries_seven [OF h1 h2 h3 h4 h5] h1 h2 h3' h4 h5 show ?thesis
    by (simp add: l cap) (simp add: lit_def)
qed

text \<open>
  Without the condition on the rows there is no report: with the seven rows of
  \<open>fruits\<close> and one row of the category \<open>meat\<close>, the command of the administrator
  ends with \<open>KeyError\<close> for \<open>meat\<close> and nothing is sent.
\<close>

theorem view_entries_seven_stray_row:
  "length (lines_of (lit ''fruits'') stray_rows) = 7 \<and>
   lit ''fruits'' \<in> set registry \<and>
   db_readable (initial_world\<lparr>db_entries := stray_rows\<rparr>) \<and>
   from_user_id admin_view = 1 \<and>
   view_entries 1 admin_view (initial_world\<lparr>db_entries := stray_rows\<rparr>) =
     (Raised (KeyError (lit ''meat'')), initial_world\<lparr>db_entries := stray_rows\<rparr>)"
proof -
  have a: "length (lines_of (lit ''fruits'') stray_rows) = 7"
    by (simp add: lines_of_def stray_rows_def example_rows_def fruit_row_def lit_def)
  have b: "lit ''fruits'' \<in> set registry"
    by (simp add: registry_def)
  have c: "db_readable (initial_world\<lparr>db_entries := stray_rows\<rparr>)"
    by (simp add: initial_world_def)
  have d: "from_user_id admin_view = 1"
    by (simp add: admin_view_def)
  have g: "group_entries initial_cats
      (map (\<lambda>r. (row_category r, row_username r, row_text r)) stray_rows) =
      Inl (KeyError (lit ''meat''))"
    by (simp add: stray_rows_def example_rows_def fruit_row_def initial_cats_def lit_def)
  have e: "view_entries 1 admin_view (initial_world\<lparr>db_entries := stray_rows\<rparr>) =
     (Raised (KeyError (lit ''meat'')), initial_world\<lparr>db_entries := stray_rows\<rparr>)"
    unfolding view_entries_def get_entries_def Let_def
    using c d by (simp add: g) (simp add: stray_rows_def)
  from a b c d e show ?thesis
    by (intro conjI)
qed

text \<open>
  C7 (as the code has it). The administrator asks for the report and the table can be
  read. Over an empty table the answer is the one sentence \<open>No entries yet.\<close>, with
  no category in it. Over a table that is not empty and whose rows all have one of
  the four categories, the report has a part for each of the four categories, and the
  part of a category without rows says \<open>_No entries yet_\<close> under a count of 0.
\<close>

theorem view_entries_all_categories:
  "from_user_id update = ADMIN_ID \<Longrightarrow> db_readable w \<Longrightarrow>
   (db_entries w = [] \<longrightarrow>
      view_entries ADMIN_ID update w =
        (Returned, send (ReplyText ADMIN_ID (lit ''No entries yet.'') Plain) w)) \<and>
   (db_entries w \<noteq> [] \<and> (\<forall>r\<in>set (db_entries w). row_category r \<in> set registry) \<longrightarrow>
      view_entries ADMIN_ID update w =
        (Returned,
         send (ReplyText ADMIN_ID
                 (overview_header @
                  concat (map (\<lambda>k. section_text k (lines_of k (db_entries w))) registry))
                 Markdown) w) \<and>
      (\<forall>k\<in>set registry. lines_of k (db_entries w) = [] \<longrightarrow>
         section_text k (lines_of k (db_entries w)) =
           lit ''*'' @ capitalize k @ lit ''* (0 entries):'' @ [10] @
           lit ''_No entries yet_'' @ [10, 10]))"
proof -
  assume adm: "from_user_id update = ADMIN_ID" and rd: "db_readable w"
  have "db_entries w = [] \<longrightarrow>
      view_entries ADMIN_ID update w =
        (Returned, send (ReplyText ADMIN_ID (lit ''No entries yet.'') Plain) w)"
    using adm rd by (simp add: view_entries_def get_entries_def no_entries_text_def)
  moreover have "db_entries w \<noteq> [] \<and> (\<forall>r\<in>set (db_entries w). row_category r \<in> set registry) \<longrightarrow>
      view_entries ADMIN_ID update w =
        (Returned,
         send (ReplyText ADMIN_ID
                 (overview_header @
                  concat (map (\<lambda>k. section_text k (lines_of k (db_entries w))) registry))
                 Markdown) w)"
    using view_entries_report [OF adm rd] by blast
  moreover have "\<forall>k\<in>set registry. lines_of k (db_entries w) = [] \<longrightarrow>
         section_text k (lines_of k (db_entries w)) =
           lit ''*'' @ capitalize k @ lit ''* (0 entries):'' @ [10] @
           lit ''_No entries yet_'' @ [10, 10]"
    by (simp add: section_text_none)
  ultimately show ?thesis
    by blast
qed

theorem view_entries_all_categories_witness:
  "from_user_id admin_view = 1 \<and> db_readable initial_world \<and>
   db_entries initial_world = [] \<and>
   view_entries 1 admin_view initial_world =
     (Returned, initial_world\<lparr>outbox := [ReplyText 1 (lit ''No entries yet.'') Plain]\<rparr>) \<and>
   db_readable (initial_world\<lparr>db_entries := example_rows\<rparr>) \<and>
   db_entries (initial_world\<lparr>db_entries := example_rows\<rparr>) \<noteq> [] \<and>
   list_all (\<lambda>r. row_category r \<in> set registry)
     (db_entries (initial_world\<lparr>db_entries := example_rows\<rparr>)) \<and>
   fst (view_entries 1 admin_view (initial_world\<lparr>db_entries := example_rows\<rparr>)) = Returned \<and>
   lit ''vegetables'' \<in> set registry \<and>
   lines_of (lit ''vegetables'') (db_entries (initial_world\<lparr>db_entries := example_rows\<rparr>)) = [] \<and>
   section_text (lit ''vegetables'')
     (lines_of (lit ''vegetables'') (db_entries (initial_world\<lparr>db_entries := example_rows\<rparr>))) =
     lit ''*Vegetables* (0 entries):'' @ [10] @ lit ''_No entries yet_'' @ [10, 10]"
proof -
  let ?w = "initial_world\<lparr>db_entries := example_rows\<rparr>"
  have h1: "from_user_id admin_view = 1"
    by (simp add: admin_view_def)
  have h2: "db_readable initial_world"
    by (simp add: initial_world_def)
  have h3: "db_entries initial_world = []"
    by (simp add: initial_world_def)
  have k2: "db_readable ?w"
    by (simp add: initial_world_def)
  have k3: "db_entries ?w \<noteq> []"
    by (simp add: example_rows_def)
  have k4: "\<forall>r\<in>set (db_entries ?w). row_category r \<in> set registry"
    by (simp add: example_rows_def fruit_row_def registry_def)
  have k5: "lit ''vegetables'' \<in> set registry"
    by (simp add: registry_def)
  have k6: "lines_of (lit ''vegetables'') (db_entries ?w) = []"
    by (simp add: lines_of_def example_rows_def fruit_row_def lit_def)
  have cap: "capitalize (lit ''vegetables'') = lit ''Vegetables''"
    by (simp add: lit_def upper_char_def lower_char_def)
  have a: "view_entries 1 admin_view initial_world =
     (Returned, initial_world\<lparr>outbox := [ReplyText 1 (lit ''No entries yet.'') Plain]\<rparr>)"
    using view_entries_all_categories [OF h1 h2] h3 by (simp add: send_def initial_world_def)
  from view_entries_all_categories [OF h1 k2] k3 k4
  have b: "fst (view_entries 1 admin_view ?w) = Returned"
    and "\<forall>k\<in>set registry. lines_of k (db_entries ?w) = [] \<longrightarrow>
         section_text k (lines_of k (db_entries ?w)) =
           lit ''*'' @ capitalize k @ lit ''* (0 entries):'' @ [10] @
           lit ''_No entries yet_'' @ [10, 10]"
    by simp_all
  with k5 k6 have c: "section_text (lit ''vegetables'') (lines_of (lit ''vegetables'') (db_entries ?w)) =
           lit ''*'' @ capitalize (lit ''vegetables'') @ lit ''* (0 entries):'' @ [10] @
           lit ''_No entries yet_'' @ [10, 10]"
    by blast
  have d: "section_text (lit ''vegetables'') (lines_of (lit ''vegetables'') (db_entries ?w)) =
     lit ''*Vegetables* (0 entries):'' @ [10] @ lit ''_No entries yet_'' @ [10, 10]"
    unfolding c cap by (simp add: lit_def)
  have k4': "list_all (\<lambda>r. row_category r \<in> set registry) (db_entries ?w)"
    using k4 by (simp only: list_all_iff)
  from h1 h2 h3 a k2 k3 k4' b k5 k6 d show ?thesis
    by (intro conjI)
qed

text \<open>
  Over the empty table the answer to the administrator is \<open>No entries yet.\<close>, a text
  in which none of the four categories occurs, capitalised or not.
\<close>

theorem view_entries_empty_store:
  "view_entries 1 admin_view initial_world =
     (Returned, initial_world\<lparr>outbox := [ReplyText 1 (lit ''No entries yet.'') Plain]\<rparr>) \<and>
   \<not> contains (lit ''No entries yet.'') (lit ''Fruits'') \<and>
   \<not> contains (lit ''No entries yet.'') (lit ''Vegetables'') \<and>
   \<not> contains (lit ''No entries yet.'') (lit ''Drinks'') \<and>
   \<not> contains (lit ''No entries yet.'') (lit ''Others'') \<and>
   \<not> contains (lit ''No entries yet.'') (lit ''fruits'') \<and>
   \<not> contains (lit ''No entries yet.'') (lit ''vegetables'') \<and>
   \<not> contains (lit ''No entries yet.'') (lit ''drinks'') \<and>
   \<not> contains (lit ''No entries yet.'') (lit ''others'')"
proof -
  have "view_entries 1 admin_view initial_world =
     (Returned, initial_world\<lparr>outbox := [ReplyText 1 (lit ''No entries yet.'') Plain]\<rparr>)"
    by (simp add: view_entries_def get_entries_def admin_view_def initial_world_def send_def
        no_entries_text_def)
  moreover have "\<not> contains (lit ''No entries yet.'') (lit ''Fruits'')"
    by (simp add: lit_def)
  moreover have "\<not> contains (lit ''No entries yet.'') (lit ''Vegetables'')"
    by (simp add: lit_def)
  moreover have "\<not> contains (lit ''No entries yet.'') (lit ''Drinks'')"
    by (simp add: lit_def)
  moreover have "\<not> contains (lit ''No entries yet.'') (lit ''Others'')"
    by (simp add: lit_def)
  moreover have "\<not> contains (lit ''No entries yet.'') (lit ''fruits'')"
    by (simp add: lit_def)
  moreover have "\<not> contains (lit ''No entries yet.'') (lit ''vegetables'')"
    by (simp add: lit_def)
  moreover have "\<not> contains (lit ''No entries yet.'') (lit ''drinks'')"
    by (simp add: lit_def)
  moreover have "\<not> contains (lit ''No entries yet.'') (lit ''others'')"
    by (simp add: lit_def)
  ultimately show ?thesis
    by (intro conjI)
qed

text \<open>
  C10. The first loop of \<open>view_entries\<close> ends without an exception when every row
  has one of the four categories, and when it raises, it raises the \<open>KeyError\<close> of a
  row whose category is not one of the four. Such a row can come into the table:
  after \<open>choose_category\<close> with a token \<open>t\<close> that is not a category and one text, the
  last row has the category \<open>t\<close> and the report of the administrator ends with
  \<open>KeyError\<close> for \<open>t\<close>.
\<close>

theorem group_entries_total:
  "((\<forall>e\<in>set es. fst e \<in> set registry) \<longrightarrow> (\<exists>cats. group_entries initial_cats es = Inr cats)) \<and>
   (\<forall>err. group_entries initial_cats es = Inl err \<longrightarrow>
      (\<exists>e\<in>set es. fst e \<notin> set registry \<and> err = KeyError (fst e))) \<and>
   (t \<notin> set registry \<and> db_writable w \<and> db_readable w \<and>
    (\<forall>r\<in>set (db_entries w). row_category r \<in> set registry) \<longrightarrow>
      (let w1 = snd (choose_category \<lparr>query_from_user_id = u, query_data = t\<rparr> w);
           w2 = snd (handle_message ADMIN_ID
                       \<lparr>from_user_id = u, from_user_first_name = name, message_text = body\<rparr> w1)
       in row_category (last (db_entries w2)) = t \<and>
          view_entries ADMIN_ID
            \<lparr>from_user_id = ADMIN_ID, from_user_first_name = admin_name, message_text = cmd\<rparr> w2 =
            (Raised (KeyError t), w2)))"
proof -
  have a: "(\<forall>e\<in>set es. fst e \<in> set registry) \<longrightarrow> (\<exists>cats. group_entries initial_cats es = Inr cats)"
    by (simp add: group_entries_initial)
  have b: "\<forall>err. group_entries initial_cats es = Inl err \<longrightarrow>
      (\<exists>e\<in>set es. fst e \<notin> set registry \<and> err = KeyError (fst e))"
    using group_entries_Inl [of initial_cats es] by (simp only: keys_initial_cats) blast
  have c: "t \<notin> set registry \<and> db_writable w \<and> db_readable w \<and>
    (\<forall>r\<in>set (db_entries w). row_category r \<in> set registry) \<longrightarrow>
      (let w1 = snd (choose_category \<lparr>query_from_user_id = u, query_data = t\<rparr> w);
           w2 = snd (handle_message ADMIN_ID
                       \<lparr>from_user_id = u, from_user_first_name = name, message_text = body\<rparr> w1)
       in row_category (last (db_entries w2)) = t \<and>
          view_entries ADMIN_ID
            \<lparr>from_user_id = ADMIN_ID, from_user_first_name = admin_name, message_text = cmd\<rparr> w2 =
            (Raised (KeyError t), w2))"
  proof (intro impI, elim conjE)
    assume t: "t \<notin> set registry" and wr: "db_writable w" and rd: "db_readable w"
      and reg: "\<forall>r\<in>set (db_entries w). row_category r \<in> set registry"
    let ?w1 = "snd (choose_category \<lparr>query_from_user_id = u, query_data = t\<rparr> w)"
    let ?upd = "\<lparr>from_user_id = u, from_user_first_name = name, message_text = body\<rparr>"
    let ?w2 = "snd (handle_message ADMIN_ID ?upd ?w1)"
    let ?f = "\<lambda>r. (row_category r, row_username r, row_text r)"
    have sel: "user_state ?w1 (from_user_id ?upd) = Some t"
      by (simp add: choose_category_world)
    have wr1: "db_writable ?w1"
      using wr by (simp add: choose_category_world)
    note hm = handle_message_selected [OF sel wr1, of ADMIN_ID]
    have db2: "db_entries ?w2 = db_entries w @
        [\<lparr>row_id = Suc (length (db_entries w)), row_user_id = u, row_username = name,
          row_category = t, row_text = strip body\<rparr>]"
      unfolding hm by (simp add: choose_category_world)
    have rd2: "db_readable ?w2"
      unfolding hm using rd by (simp add: choose_category_world)
    have g: "get_entries ?w2 = Inr (map ?f (db_entries w) @ [(t, name, strip body)])"
      using rd2 by (simp add: get_entries_def db2)
    have "\<forall>e\<in>set (map ?f (db_entries w)). fst e \<in> set registry"
      using reg by simp
    then have g1: "group_entries initial_cats (map ?f (db_entries w)) =
        Inr (map (\<lambda>k. (k, category_lines k (map ?f (db_entries w)))) registry)"
      by (rule group_entries_initial)
    have "t \<notin> fst ` set (map (\<lambda>k. (k, category_lines k (map ?f (db_entries w)))) registry)"
      using t by (simp add: image_image)
    then have "cats_append (map (\<lambda>k. (k, category_lines k (map ?f (db_entries w)))) registry) t
        (entry_line name (strip body)) = Inl (KeyError t)"
      by (rule cats_append_fail)
    then have gr: "group_entries initial_cats (map ?f (db_entries w) @ [(t, name, strip body)]) =
        Inl (KeyError t)"
      by (simp add: group_entries_append g1)
    have v: "view_entries ADMIN_ID
            \<lparr>from_user_id = ADMIN_ID, from_user_first_name = admin_name, message_text = cmd\<rparr> ?w2 =
            (Raised (KeyError t), ?w2)"
      unfolding view_entries_def Let_def g by (simp add: gr)
    have "row_category (last (db_entries ?w2)) = t"
      by (simp add: db2)
    with v show "let w1 = ?w1; w2 = snd (handle_message ADMIN_ID ?upd w1)
       in row_category (last (db_entries w2)) = t \<and>
          view_entries ADMIN_ID
            \<lparr>from_user_id = ADMIN_ID, from_user_first_name = admin_name, message_text = cmd\<rparr> w2 =
            (Raised (KeyError t), w2)"
      unfolding Let_def by (intro conjI)
  qed
  from a b c show ?thesis
    by (intro conjI)
qed

theorem group_entries_total_witness:
  "list_all (\<lambda>e. fst e \<in> set registry)
     [(lit ''fruits'', lit ''Sara'', lit ''fig''), (lit ''drinks'', lit ''Abel'', lit ''tea'')] \<and>
   (\<exists>cats. group_entries initial_cats
      [(lit ''fruits'', lit ''Sara'', lit ''fig''), (lit ''drinks'', lit ''Abel'', lit ''tea'')] =
      Inr cats) \<and>
   group_entries initial_cats [(lit ''meat'', lit ''Sara'', lit ''ham'')] =
     Inl (KeyError (lit ''meat'')) \<and>
   fst (lit ''meat'', lit ''Sara'', lit ''ham'') \<notin> set registry \<and>
   lit ''meat'' \<notin> set registry \<and> db_writable initial_world \<and> db_readable initial_world \<and>
   list_all (\<lambda>r. row_category r \<in> set registry) (db_entries initial_world) \<and>
   view_entries 1 admin_view
     (snd (handle_message 1
        \<lparr>from_user_id = 7, from_user_first_name = lit ''Sara'', message_text = lit ''ham''\<rparr>
        (snd (choose_category \<lparr>query_from_user_id = 7, query_data = lit ''meat''\<rparr>
                initial_world)))) =
     (Raised (KeyError (lit ''meat'')),
      snd (handle_message 1
        \<lparr>from_user_id = 7, from_user_first_name = lit ''Sara'', message_text = lit ''ham''\<rparr>
        (snd (choose_category \<lparr>query_from_user_id = 7, query_data = lit ''meat''\<rparr>
                initial_world))))"
proof -
  let ?es1 = "[(lit ''fruits'', lit ''Sara'', lit ''fig''), (lit ''drinks'', lit ''Abel'', lit ''tea'')]"
  let ?es2 = "[(lit ''meat'', lit ''Sara'', lit ''ham'')]"
  have e1: "\<forall>e\<in>set ?es1. fst e \<in> set registry"
    by (simp add: registry_def)
  have m: "lit ''meat'' \<notin> set registry"
    by (simp add: registry_def lit_def)
  have e2: "group_entries initial_cats ?es2 = Inl (KeyError (lit ''meat''))"
    by (simp add: initial_cats_def lit_def)
  have wr: "db_writable initial_world" and rd: "db_readable initial_world"
    and reg: "\<forall>r\<in>set (db_entries initial_world). row_category r \<in> set registry"
    by (simp_all add: initial_world_def)
  note t1 = group_entries_total [where es = ?es1]
  note t2 = group_entries_total [where es = ?es2 and t = "lit ''meat''" and w = initial_world
      and u = 7 and ADMIN_ID = 1 and name = "lit ''Sara''" and body = "lit ''ham''"
      and admin_name = "lit ''Joel''" and cmd = "lit ''/view''"]
  from t1 e1 have c1: "\<exists>cats. group_entries initial_cats ?es1 = Inr cats"
    by blast
  from t2 e2 have "\<exists>e\<in>set ?es2. fst e \<notin> set registry \<and> KeyError (lit ''meat'') = KeyError (fst e)"
    by blast
  then have c2: "fst (lit ''meat'', lit ''Sara'', lit ''ham'') \<notin> set registry"
    by simp
  from t2 m wr rd reg have c3: "view_entries 1 admin_view
     (snd (handle_message 1
        \<lparr>from_user_id = 7, from_user_first_name = lit ''Sara'', message_text = lit ''ham''\<rparr>
        (snd (choose_category \<lparr>query_from_user_id = 7, query_data = lit ''meat''\<rparr>
                initial_world)))) =
     (Raised (KeyError (lit ''meat'')),
      snd (handle_message 1
        \<lparr>from_user_id = 7, from_user_first_name = lit ''Sara'', message_text = lit ''ham''\<rparr>
        (snd (choose_category \<lparr>query_from_user_id = 7, query_data = lit ''meat''\<rparr>
                initial_world))))"
    unfolding Let_def admin_view_def by blast
  have e1': "list_all (\<lambda>e. fst e \<in> set registry) ?es1"
    using e1 by (simp only: list_all_iff)
  have reg': "list_all (\<lambda>r. row_category r \<in> set registry) (db_entries initial_world)"
    using reg by (simp only: list_all_iff)
  from e1' c1 e2 c2 m wr rd reg' c3 show ?thesis
    by (intro conjI)
qed

end
